theory Spec2Isabelle
  imports Complex_Main "HOL-Library.Log_Nat"
begin

section \<open>Python values\<close>

text \<open>
  The module \<^verbatim>\<open>homework.py\<close> computes with Python numbers and strings.

  A Python \<^verbatim>\<open>str\<close> is a sequence of Unicode code points, so it is a list of
  naturals here; \<open>str\<close> turns an ASCII literal into one.

  A Python number is an unbounded \<^verbatim>\<open>int\<close> or a \<^verbatim>\<open>float\<close>, an IEEE 754 binary64
  value. The annotations of the module say \<^verbatim>\<open>float\<close> almost everywhere, but they are
  not enforced, its own constants \<^verbatim>\<open>M_IN_KM = 1000\<close>, \<^verbatim>\<open>HOURS_IN_MINUTES = 60\<close>, ... are
  \<^verbatim>\<open>int\<close> objects and its driver passes lists of \<^verbatim>\<open>int\<close>, so both kinds are kept.

  A float is represented by the rational it denotes. The model keeps the 53 bit
  significand and the rounding to nearest, ties to even, of every operation; it
  does not bound the exponent. So it agrees with CPython as long as every
  intermediate result is zero or in the normal range of binary64, and it has no
  infinities, NaN, negative zero, subnormal numbers or \<^verbatim>\<open>OverflowError\<close>.
\<close>

type_synonym pystr = "nat list"

definition str :: "string \<Rightarrow> pystr" where
  "str s = map of_char s"

datatype pynum = PyInt int | PyFloat rat

datatype error =
    ValueError | TypeError | ZeroDivisionError | NotImplementedError
  | KeyError | IndexError
  | Unsupported  \<comment> \<open>a use of \<^verbatim>\<open>str.format\<close> that the model does not cover\<close>

type_synonym 'a result = "error + 'a"

text \<open>Sequencing: the first exception raised ends the evaluation.\<close>

fun bnd :: "'a result \<Rightarrow> ('a \<Rightarrow> 'b result) \<Rightarrow> 'b result" where
  "bnd (Inl e) f = Inl e"
| "bnd (Inr x) f = f x"

subsection \<open>Rounding to binary64\<close>

definition pow2 :: "int \<Rightarrow> rat" where
  "pow2 k = (if 0 \<le> k then 2 ^ nat k else 1 / 2 ^ nat (- k))"

text \<open>The nearest integer, the even one of the two at a tie.\<close>

definition round_half_even :: "rat \<Rightarrow> int" where
  "round_half_even y =
     (let f = \<lfloor>y\<rfloor>; r = y - of_int f
      in if r < 1 / 2 then f
         else if 1 / 2 < r then f + 1
         else if even f then f else f + 1)"

text \<open>
  The binary exponent of a non-zero rational: \<open>pow2 (expo x) \<le> \<bar>x\<bar> < pow2 (expo x + 1)\<close>.
  The bit lengths of numerator and denominator give it up to one.
\<close>

definition expo :: "rat \<Rightarrow> int" where
  "expo x =
     (let (p, q) = quotient_of \<bar>x\<bar>; e = bitlen p - bitlen q
      in if pow2 e \<le> \<bar>x\<bar> then e else e - 1)"

text \<open>
  \<open>rnd x\<close> is the float nearest to \<open>x\<close>: the significand \<open>x / pow2 (expo x - 52)\<close>,
  of magnitude in \<open>[2^52, 2^53)\<close>, is rounded to an integer.
\<close>

definition rnd :: "rat \<Rightarrow> rat" where
  "rnd x =
     (if x = 0 then 0
      else let u = pow2 (expo x - 52) in u * of_int (round_half_even (x / u)))"

subsection \<open>Arithmetic\<close>

text \<open>The value a number denotes, and the float an operand is converted to.\<close>

fun num_val :: "pynum \<Rightarrow> rat" where
  "num_val (PyInt i) = of_int i"
| "num_val (PyFloat r) = r"

fun to_float :: "pynum \<Rightarrow> rat" where
  "to_float (PyInt i) = rnd (of_int i)"
| "to_float (PyFloat r) = r"

text \<open>A float literal of the source, such as \<^verbatim>\<open>0.65\<close>, is the float nearest to the decimal.\<close>

definition float_lit :: "rat \<Rightarrow> pynum" where
  "float_lit r = PyFloat (rnd r)"

text \<open>
  \<^verbatim>\<open>x * y\<close> and \<^verbatim>\<open>x + y\<close>: exact on two ints; otherwise an int operand is converted
  to float and the float operation rounds the exact result once.
\<close>

fun py_mul :: "pynum \<Rightarrow> pynum \<Rightarrow> pynum" where
  "py_mul (PyInt a) (PyInt b) = PyInt (a * b)"
| "py_mul x y = PyFloat (rnd (to_float x * to_float y))"

fun py_add :: "pynum \<Rightarrow> pynum \<Rightarrow> pynum" where
  "py_add (PyInt a) (PyInt b) = PyInt (a + b)"
| "py_add x y = PyFloat (rnd (to_float x + to_float y))"

text \<open>
  \<^verbatim>\<open>x / y\<close> is true division and always gives a float: the correctly rounded quotient
  of two ints, the float quotient otherwise. \<open>truediv\<close> is the quotient for a non-zero
  divisor; \<open>py_truediv\<close> is the operator, which raises \<^verbatim>\<open>ZeroDivisionError\<close> on a
  zero divisor of either kind and is the only caller of \<open>truediv\<close> in the model.
\<close>

fun truediv :: "pynum \<Rightarrow> pynum \<Rightarrow> pynum" where
  "truediv (PyInt a) (PyInt b) = PyFloat (rnd (of_int a / of_int b))"
| "truediv x y = PyFloat (rnd (to_float x / to_float y))"

definition py_truediv :: "pynum \<Rightarrow> pynum \<Rightarrow> pynum result" where
  "py_truediv x y = (if num_val y = 0 then Inl ZeroDivisionError else Inr (truediv x y))"

text \<open>
  \<^verbatim>\<open>x ** n\<close> for a literal \<open>n \<ge> 0\<close>: exact on an int; on a float CPython calls the C
  library's \<^verbatim>\<open>pow(x, (double) n)\<close>, whose last bit depends on the platform (it is not
  always the correctly rounded power). That function is the parameter \<open>libm_pow\<close> of
  everything that reaches \<^verbatim>\<open>**\<close>. \<open>pow_nearest\<close> is the correctly rounded one.
\<close>

type_synonym libm = "rat \<Rightarrow> rat \<Rightarrow> rat"

fun py_pow :: "libm \<Rightarrow> pynum \<Rightarrow> nat \<Rightarrow> pynum" where
  "py_pow libm_pow (PyInt a) n = PyInt (a ^ n)"
| "py_pow libm_pow (PyFloat r) n = PyFloat (libm_pow r (of_nat n))"

definition pow_nearest :: libm where
  "pow_nearest x y = rnd (x ^ nat \<lfloor>y\<rfloor>)"

section \<open>The training classes\<close>

text \<open>
  An object of class \<^verbatim>\<open>Training\<close> or of one of its three subclasses: the constructor
  of the datatype is the class of the object, its arguments are the attributes that
  \<^verbatim>\<open>__init__\<close> stores, in the order of its parameters.
\<close>

datatype training =
    Training (action: pynum) (duration: pynum) (weight: pynum)
  | Running (action: pynum) (duration: pynum) (weight: pynum)
  | SportsWalking (action: pynum) (duration: pynum) (weight: pynum) (height: pynum)
  | Swimming (action: pynum) (duration: pynum) (weight: pynum)
      (length_pool: pynum) (count_pool: pynum)

text \<open>\<^verbatim>\<open>self.__class__.__name__\<close>\<close>

fun class_name :: "training \<Rightarrow> pystr" where
  "class_name (Training a d w) = str ''Training''"
| "class_name (Running a d w) = str ''Running''"
| "class_name (SportsWalking a d w h) = str ''SportsWalking''"
| "class_name (Swimming a d w l c) = str ''Swimming''"

subsection \<open>Class constants\<close>

text \<open>\<^verbatim>\<open>self.LEN_STEP\<close>: 0.65 in \<^verbatim>\<open>Training\<close>, overridden by 1.38 in \<^verbatim>\<open>Swimming\<close>.\<close>

fun LEN_STEP :: "training \<Rightarrow> pynum" where
  "LEN_STEP (Swimming a d w l c) = float_lit (138 / 100)"
| "LEN_STEP t = float_lit (65 / 100)"

definition M_IN_KM :: pynum where
  "M_IN_KM = PyInt 1000"

definition HOURS_IN_MINUTES :: pynum where
  "HOURS_IN_MINUTES = PyInt 60"

definition CALORIES_MEAN_SPEED_MULTIPLIER :: pynum where
  "CALORIES_MEAN_SPEED_MULTIPLIER = PyInt 18"

definition CALORIES_MEAN_SPEED_SHIFT :: pynum where
  "CALORIES_MEAN_SPEED_SHIFT = float_lit (179 / 100)"

definition MULTIPLIER_CALORIES_1 :: pynum where
  "MULTIPLIER_CALORIES_1 = float_lit (35 / 1000)"

definition MULTIPLIER_CALORIES_2 :: pynum where
  "MULTIPLIER_CALORIES_2 = float_lit (29 / 1000)"

definition KMHOUR_IN_MSECOND :: pynum where
  "KMHOUR_IN_MSECOND = float_lit (278 / 1000)"

definition SM_IN_MTR :: pynum where
  "SM_IN_MTR = PyInt 100"

definition MULTIPLIER_CALORIES_3 :: pynum where
  "MULTIPLIER_CALORIES_3 = float_lit (11 / 10)"

definition MULTIPLIER_CALORIES_4 :: pynum where
  "MULTIPLIER_CALORIES_4 = PyInt 2"

subsection \<open>Methods\<close>

text \<open>\<^verbatim>\<open>return self.action * self.LEN_STEP / self.M_IN_KM\<close>\<close>

definition get_distance :: "training \<Rightarrow> pynum result" where
  "get_distance self = py_truediv (py_mul (action self) (LEN_STEP self)) M_IN_KM"

text \<open>
  \<^verbatim>\<open>Training\<close>: \<^verbatim>\<open>return self.get_distance() / self.duration\<close>;
  \<^verbatim>\<open>Swimming\<close>: \<^verbatim>\<open>return self.length_pool * self.count_pool / self.M_IN_KM / self.duration\<close>
\<close>

fun get_mean_speed :: "training \<Rightarrow> pynum result" where
  "get_mean_speed (Swimming a d w l c) =
     bnd (py_truediv (py_mul l c) M_IN_KM) (\<lambda>q. py_truediv q d)"
| "get_mean_speed self =
     bnd (get_distance self) (\<lambda>dst. py_truediv dst (duration self))"

text \<open>
  \<^verbatim>\<open>Training\<close> raises \<^verbatim>\<open>NotImplementedError\<close>; the subclasses override it. Operands
  are evaluated from left to right, as Python does.
\<close>

fun get_spent_calories :: "libm \<Rightarrow> training \<Rightarrow> pynum result" where
  "get_spent_calories libm_pow (Training a d w) = Inl NotImplementedError"
| "get_spent_calories libm_pow (Running a d w) =
     bnd (get_mean_speed (Running a d w)) (\<lambda>ms.
     bnd (py_truediv
            (py_mul (py_add (py_mul CALORIES_MEAN_SPEED_MULTIPLIER ms)
                            CALORIES_MEAN_SPEED_SHIFT) w)
            M_IN_KM) (\<lambda>q.
     Inr (py_mul (py_mul q d) HOURS_IN_MINUTES)))"
| "get_spent_calories libm_pow (SportsWalking a d w h) =
     bnd (get_mean_speed (SportsWalking a d w h)) (\<lambda>ms.
     bnd (py_truediv h SM_IN_MTR) (\<lambda>hm.
     bnd (py_truediv (py_pow libm_pow (py_mul ms KMHOUR_IN_MSECOND) 2) hm) (\<lambda>q.
     Inr (py_mul (py_add (py_mul MULTIPLIER_CALORIES_1 w)
                         (py_mul (py_mul q MULTIPLIER_CALORIES_2) w))
                 (py_mul d HOURS_IN_MINUTES)))))"
| "get_spent_calories libm_pow (Swimming a d w l c) =
     bnd (get_mean_speed (Swimming a d w l c)) (\<lambda>ms.
     Inr (py_mul (py_mul (py_mul (py_add ms MULTIPLIER_CALORIES_3)
                                 MULTIPLIER_CALORIES_4) w) d))"

section \<open>The report\<close>

subsection \<open>Fixed-point formatting\<close>

text \<open>The \<open>k\<close> low decimal digits of \<open>n\<close>, and \<open>n\<close> in decimal without leading zeros.\<close>

primrec digits :: "nat \<Rightarrow> nat \<Rightarrow> pystr" where
  "digits 0 n = []"
| "digits (Suc k) n = digits k (n div 10) @ [48 + n mod 10]"

definition decimal :: "nat \<Rightarrow> pystr" where
  "decimal n = digits (max 1 (floorlog 10 n)) n"

text \<open>
  \<^verbatim>\<open>format(x, '.pf')\<close>: an int is converted to float; the exact value of the float is
  rounded to \<open>p\<close> decimals, ties to even; the sign is that of the value, also when
  the digits are all zero; there is no point when \<open>p = 0\<close>.
\<close>

definition format_f :: "nat \<Rightarrow> pynum \<Rightarrow> pystr" where
  "format_f p x =
     (let v = to_float x;
          m = nat (round_half_even (\<bar>v\<bar> * 10 ^ p))
      in (if v < 0 then str ''-'' else []) @ decimal (m div 10 ^ p) @
         (if p = 0 then [] else str ''.'' @ digits p (m mod 10 ^ p)))"

subsection \<open>\<^verbatim>\<open>str.format\<close>\<close>

text \<open>
  The part of \<^verbatim>\<open>str.format\<close> with keyword arguments that the module needs, and the
  errors around it: literal text with the escapes \<^verbatim>\<open>{{\<close> and \<^verbatim>\<open>}}\<close>, and
  replacement fields \<^verbatim>\<open>{name}\<close> and \<^verbatim>\<open>{name:.pf}\<close>. The string is scanned from the
  left, so the first error met is the one raised. Conversions (\<^verbatim>\<open>!r\<close>), attribute
  and index access, nested fields, other format specifications and \<^verbatim>\<open>str()\<close> of a
  number are \<open>Unsupported\<close>.
\<close>

datatype pyobj = Str pystr | Num pynum

abbreviation (input) lbrace :: nat where "lbrace \<equiv> 123"
abbreviation (input) rbrace :: nat where "rbrace \<equiv> 125"
abbreviation (input) colon :: nat where "colon \<equiv> 58"

definition is_digit :: "nat \<Rightarrow> bool" where
  "is_digit c \<longleftrightarrow> 48 \<le> c \<and> c \<le> 57"

definition nat_of_digits :: "pystr \<Rightarrow> nat" where
  "nat_of_digits ds = foldl (\<lambda>n c. 10 * n + (c - 48)) 0 ds"

text \<open>A format specification \<^verbatim>\<open>.pf\<close>, and its precision \<open>p\<close>.\<close>

definition is_fixed_spec :: "pystr \<Rightarrow> bool" where
  "is_fixed_spec spec \<longleftrightarrow>
     3 \<le> length spec \<and> hd spec = 46 \<and> last spec = 102 \<and> list_all is_digit (butlast (tl spec))"

definition precision :: "pystr \<Rightarrow> nat" where
  "precision spec = nat_of_digits (butlast (tl spec))"

definition format_value :: "pyobj \<Rightarrow> pystr \<Rightarrow> pystr result" where
  "format_value v spec =
     (if spec = [] then (case v of Str s \<Rightarrow> Inr s | Num x \<Rightarrow> Inl Unsupported)
      else if is_fixed_spec spec then
        (case v of Num x \<Rightarrow> Inr (format_f (precision spec) x) | Str s \<Rightarrow> Inl ValueError)
      else Inl Unsupported)"

text \<open>
  The text between the braces of a replacement field: a name, and a format
  specification after the first colon. An empty or numeric name is a positional
  argument, of which there are none.
\<close>

definition format_field :: "(pystr \<rightharpoonup> pyobj) \<Rightarrow> pystr \<Rightarrow> pystr result" where
  "format_field kwargs field =
     (let name = takeWhile (\<lambda>c. c \<noteq> colon) field;
          spec = drop (length name + 1) field
      in if list_all is_digit name then Inl IndexError
         else if \<exists>c \<in> set name. c \<in> set (str ''.[]!'') then Inl Unsupported
         else case kwargs name of
                None \<Rightarrow> Inl KeyError
              | Some v \<Rightarrow> format_value v spec)"

text \<open>
  The scanner. Its second argument is \<open>None\<close> in literal text and \<open>Some f\<close> inside a
  replacement field of which \<open>f\<close> has been read.
\<close>

fun format_go :: "(pystr \<rightharpoonup> pyobj) \<Rightarrow> pystr option \<Rightarrow> pystr \<Rightarrow> pystr result" where
  "format_go kwargs None [] = Inr []"
| "format_go kwargs (Some f) [] = Inl ValueError"
| "format_go kwargs None (c # cs) =
     (if c = lbrace then
        (case cs of
           [] \<Rightarrow> Inl ValueError
         | d # ds \<Rightarrow>
             if d = lbrace then bnd (format_go kwargs None ds) (\<lambda>rest. Inr (lbrace # rest))
             else format_go kwargs (Some []) cs)
      else if c = rbrace then
        (case cs of
           [] \<Rightarrow> Inl ValueError
         | d # ds \<Rightarrow>
             if d = rbrace then bnd (format_go kwargs None ds) (\<lambda>rest. Inr (rbrace # rest))
             else Inl ValueError)
      else bnd (format_go kwargs None cs) (\<lambda>rest. Inr (c # rest)))"
| "format_go kwargs (Some f) (c # cs) =
     (if c = rbrace then
        bnd (format_field kwargs f) (\<lambda>s.
        bnd (format_go kwargs None cs) (\<lambda>rest. Inr (s @ rest)))
      else if c = lbrace then Inl Unsupported
      else format_go kwargs (Some (f @ [c])) cs)"

definition format :: "pystr \<Rightarrow> (pystr \<times> pyobj) list \<Rightarrow> pystr result" where
  "format template kwargs = format_go (map_of kwargs) None template"

subsection \<open>\<^verbatim>\<open>InfoMessage\<close>\<close>

text \<open>
  The Russian words of the template, as code points: \<open>1040\<close> to \<open>1071\<close> are the
  capital letters of the Cyrillic alphabet, \<open>1072\<close> to \<open>1103\<close> the small ones.
  In Latin transliteration: "Tip trenirovki", "Dlitel'nost'", "ch.", "Distantsiya",
  "km", "Sr. skorost'", "km/ch", "Potracheno kkal".
\<close>

definition ru_training_type :: pystr where
  "ru_training_type =
     [1058, 1080, 1087, 32, 1090, 1088, 1077, 1085, 1080, 1088, 1086, 1074, 1082, 1080]"

definition ru_duration :: pystr where
  "ru_duration = [1044, 1083, 1080, 1090, 1077, 1083, 1100, 1085, 1086, 1089, 1090, 1100]"

definition ru_hours :: pystr where
  "ru_hours = [1095, 46]"

definition ru_distance :: pystr where
  "ru_distance = [1044, 1080, 1089, 1090, 1072, 1085, 1094, 1080, 1103]"

definition ru_km :: pystr where
  "ru_km = [1082, 1084]"

definition ru_mean_speed :: pystr where
  "ru_mean_speed = [1057, 1088, 46, 32, 1089, 1082, 1086, 1088, 1086, 1089, 1090, 1100]"

definition ru_kmh :: pystr where
  "ru_kmh = [1082, 1084, 47, 1095]"

definition ru_calories :: pystr where
  "ru_calories =
     [1055, 1086, 1090, 1088, 1072, 1095, 1077, 1085, 1086, 32, 1082, 1082, 1072, 1083]"

text \<open>
  The dataclass. The field \<^verbatim>\<open>duration\<close> is \<open>msg_duration\<close> here, the name being taken
  by the attribute of \<open>training\<close>. \<^verbatim>\<open>Message\<close> is a field with a default value.
\<close>

record InfoMessage =
  training_type :: pystr
  msg_duration :: pynum
  distance :: pynum
  speed :: pynum
  calories :: pynum
  Message :: pystr

definition Message_default :: pystr where
  "Message_default =
     ru_training_type @ str '': {training_type}; '' @
     ru_duration @ str '': {duration:.3f} '' @ ru_hours @ str ''; '' @
     ru_distance @ str '': {distance:.3f} '' @ ru_km @ str ''; '' @
     ru_mean_speed @ str '': {speed:.3f} '' @ ru_kmh @ str ''; '' @
     ru_calories @ str '': {calories:.3f}.''"

text \<open>The constructor call with five arguments, the only one in the module.\<close>

definition new_InfoMessage :: "pystr \<Rightarrow> pynum \<Rightarrow> pynum \<Rightarrow> pynum \<Rightarrow> pynum \<Rightarrow> InfoMessage" where
  "new_InfoMessage name dur dst sp cal =
     \<lparr>training_type = name, msg_duration = dur, distance = dst, speed = sp,
      calories = cal, Message = Message_default\<rparr>"

text \<open>\<^verbatim>\<open>dataclasses.asdict\<close>: the fields by name, in the order of their declaration.\<close>

definition asdict :: "InfoMessage \<Rightarrow> (pystr \<times> pyobj) list" where
  "asdict m =
     [(str ''training_type'', Str (training_type m)),
      (str ''duration'', Num (msg_duration m)),
      (str ''distance'', Num (distance m)),
      (str ''speed'', Num (speed m)),
      (str ''calories'', Num (calories m)),
      (str ''Message'', Str (Message m))]"

text \<open>\<^verbatim>\<open>return self.Message.format(**asdict(self))\<close>\<close>

definition get_message :: "InfoMessage \<Rightarrow> pystr result" where
  "get_message self = format (Message self) (asdict self)"

text \<open>
  \<^verbatim>\<open>Training.show_training_info\<close>: the arguments of the constructor are evaluated in
  order, so the first method that raises decides the error.
\<close>

definition show_training_info :: "libm \<Rightarrow> training \<Rightarrow> InfoMessage result" where
  "show_training_info libm_pow self =
     bnd (get_distance self) (\<lambda>dst.
     bnd (get_mean_speed self) (\<lambda>sp.
     bnd (get_spent_calories libm_pow self) (\<lambda>cal.
     Inr (new_InfoMessage (class_name self) (duration self) dst sp cal))))"

section \<open>Reading a package\<close>

text \<open>
  The three classes that \<^verbatim>\<open>read_package\<close> knows, and the call \<^verbatim>\<open>cls(*data)\<close>: the list
  is bound to the parameters of \<^verbatim>\<open>__init__\<close> by position, and a list of another
  length is a \<^verbatim>\<open>TypeError\<close>.
\<close>

datatype training_class = Swimming_class | Running_class | SportsWalking_class

fun new_training :: "training_class \<Rightarrow> pynum list \<Rightarrow> training result" where
  "new_training Running_class [a, d, w] = Inr (Running a d w)"
| "new_training SportsWalking_class [a, d, w, h] = Inr (SportsWalking a d w h)"
| "new_training Swimming_class [a, d, w, l, c] = Inr (Swimming a d w l c)"
| "new_training cls data = Inl TypeError"

definition training_types :: "pystr \<rightharpoonup> training_class" where
  "training_types =
     [str ''SWM'' \<mapsto> Swimming_class,
      str ''RUN'' \<mapsto> Running_class,
      str ''WLK'' \<mapsto> SportsWalking_class]"

definition read_package :: "pystr \<Rightarrow> pynum list \<Rightarrow> training result" where
  "read_package workout_type data =
     (case training_types workout_type of
        None \<Rightarrow> Inl ValueError
      | Some cls \<Rightarrow> new_training cls data)"

text \<open>\<^verbatim>\<open>main\<close> prints the message of the report; the model returns the line.\<close>

definition main :: "libm \<Rightarrow> training \<Rightarrow> pystr result" where
  "main libm_pow training = bnd (show_training_info libm_pow training) get_message"

text \<open>The packages of the driver.\<close>

definition packages :: "(pystr \<times> pynum list) list" where
  "packages =
     [(str ''SWM'', [PyInt 720, PyInt 1, PyInt 80, PyInt 25, PyInt 40]),
      (str ''RUN'', [PyInt 15000, PyInt 1, PyInt 75]),
      (str ''WLK'', [PyInt 9000, PyInt 1, PyInt 75, PyInt 180])]"

section \<open>Properties of the rounding\<close>

lemma pow2_pos: "0 < pow2 k"
  by (simp add: pow2_def)

lemma pow2_powi: "pow2 k = 2 powi k"
  by (simp add: pow2_def power_int_def field_simps)

text \<open>
  The exponent that \<open>expo\<close> computes is the right one, so the significand that \<open>rnd\<close>
  rounds has 53 bits.
\<close>

lemma expo_bounds:
  assumes "x \<noteq> 0"
  shows "pow2 (expo x) \<le> \<bar>x\<bar>" and "\<bar>x\<bar> < pow2 (expo x + 1)"
proof -
  obtain p q where pq: "quotient_of \<bar>x\<bar> = (p, q)"
    by (cases "quotient_of \<bar>x\<bar>")
  have q: "0 < q"
    using pq by (rule quotient_of_denom_pos)
  have x: "\<bar>x\<bar> = of_int p / of_int q"
    using pq by (rule quotient_of_div)
  have p: "0 < p"
  proof -
    have "0 < \<bar>x\<bar>" using assms by simp
    then have "0 < (of_int p :: rat) / of_int q" by (simp only: x)
    then show ?thesis using q by (simp add: zero_less_divide_iff)
  qed
  define e where "e = bitlen p - bitlen q"
  have bp: "1 \<le> bitlen p" and bq: "1 \<le> bitlen q"
    using p q bitlen_eq_zero_iff [of p] bitlen_eq_zero_iff [of q]
      bitlen_nonneg [of p] bitlen_nonneg [of q]
    by linarith+
  have "2 ^ nat (bitlen p - 1) \<le> p" and "p < 2 ^ nat (bitlen p)"
    and "2 ^ nat (bitlen q - 1) \<le> q" and "q < 2 ^ nat (bitlen q)"
    using bitlen_bounds [OF p] bitlen_bounds [OF q] by simp_all
  then have "(2::rat) ^ nat (bitlen p - 1) \<le> of_int p"
    and "(of_int p :: rat) < 2 ^ nat (bitlen p)"
    and "(2::rat) ^ nat (bitlen q - 1) \<le> of_int q"
    and "(of_int q :: rat) \<le> 2 ^ nat (bitlen q)"
    by (metis of_int_le_iff of_int_numeral of_int_power,
        metis of_int_less_iff of_int_numeral of_int_power,
        metis of_int_le_iff of_int_numeral of_int_power,
        metis less_imp_le of_int_le_iff of_int_numeral of_int_power)
  then have p_lo: "pow2 (bitlen p - 1) \<le> of_int p" and p_hi: "of_int p < pow2 (bitlen p)"
    and q_lo: "pow2 (bitlen q - 1) \<le> of_int q" and q_hi: "of_int q \<le> pow2 (bitlen q)"
    using bp bq by (simp_all add: pow2_def)
  have lo: "pow2 (e - 1) \<le> \<bar>x\<bar>"
  proof -
    have "pow2 (e - 1) = pow2 (bitlen p - 1) / pow2 (bitlen q)"
      by (simp add: e_def pow2_powi power_int_diff)
    also have "\<dots> \<le> of_int p / of_int q"
      using p_lo q_hi q pow2_pos [of "bitlen p - 1"]
      by (intro frac_le) simp_all
    finally show ?thesis by (simp add: x)
  qed
  have hi: "\<bar>x\<bar> < pow2 (e + 1)"
  proof -
    have "of_int p / of_int q < pow2 (bitlen p) / pow2 (bitlen q - 1)"
      using p_hi q_lo p pow2_pos [of "bitlen q - 1"]
      by (intro frac_less) simp_all
    also have "\<dots> = pow2 (e + 1)"
      by (simp add: e_def pow2_powi power_int_diff power_int_add)
    finally show ?thesis by (simp add: x)
  qed
  have "expo x = (if pow2 e \<le> \<bar>x\<bar> then e else e - 1)"
    by (simp add: expo_def pq e_def Let_def)
  then show "pow2 (expo x) \<le> \<bar>x\<bar>" and "\<bar>x\<bar> < pow2 (expo x + 1)"
    using lo hi by (simp_all split: if_splits)
qed

lemma round_half_even_err: "\<bar>of_int (round_half_even y) - y\<bar> \<le> 1 / 2"
proof -
  have "of_int \<lfloor>y\<rfloor> \<le> y" "y < of_int \<lfloor>y\<rfloor> + 1"
    by linarith+
  then show ?thesis
    by (auto simp add: round_half_even_def Let_def abs_le_iff)
qed

text \<open>One rounding changes a value by at most the relative error \<open>2^-53\<close>.\<close>

lemma rnd_err: "\<bar>rnd x - x\<bar> \<le> \<bar>x\<bar> / 2 ^ 53"
proof (cases "x = 0")
  case True
  then show ?thesis by (simp add: rnd_def)
next
  case False
  define u where "u = pow2 (expo x - 52)"
  define m where "m = round_half_even (x / u)"
  have u: "0 < u" by (simp add: u_def pow2_pos)
  have "pow2 (expo x) = u * 2 ^ 52"
    by (simp add: u_def pow2_powi power_int_diff)
  with expo_bounds(1) [OF False] have ux: "u * 2 ^ 52 \<le> \<bar>x\<bar>" by simp
  have "rnd x - x = u * (of_int m - x / u)"
    using False u by (simp add: rnd_def u_def m_def Let_def field_simps)
  then have "\<bar>rnd x - x\<bar> = u * \<bar>of_int m - x / u\<bar>"
    using u by (simp add: abs_mult)
  also have "\<dots> \<le> u * (1 / 2)"
    using u round_half_even_err [of "x / u"] unfolding m_def
    by (intro mult_left_mono) simp_all
  also have "\<dots> \<le> \<bar>x\<bar> / 2 ^ 53"
    using ux by simp
  finally show ?thesis .
qed

lemma rnd_eq_0_iff: "rnd x = 0 \<longleftrightarrow> x = 0"
proof
  assume "rnd x = 0"
  with rnd_err [of x] have "\<bar>x\<bar> \<le> \<bar>x\<bar> / 2 ^ 53" by simp
  then show "x = 0" by simp
qed (simp add: rnd_def)

section \<open>Distance and mean speed\<close>




section \<open>Calories\<close>

text \<open>A quotient is zero only if the dividend is: rounding does not reach zero.\<close>

lemma truediv_eq_0_iff: "num_val y \<noteq> 0 \<Longrightarrow> num_val (truediv x y) = 0 \<longleftrightarrow> num_val x = 0"
  by (cases x; cases y) (simp_all add: rnd_eq_0_iff)







section \<open>The round trip of the distance\<close>










section \<open>What \<open>read_package\<close> builds\<close>

lemma training_types_eq:
  "training_types wt =
     (if wt = str ''WLK'' then Some SportsWalking_class
      else if wt = str ''RUN'' then Some Running_class
      else if wt = str ''SWM'' then Some Swimming_class else None)"
  by (simp add: training_types_def str_def)

lemma new_training_not_ValueError: "new_training cls data \<noteq> Inl ValueError"
  by (induction cls data rule: new_training.induct) simp_all

lemma read_package_known:
  "read_package (str ''SWM'') [a, d, w, l, c] = Inr (Swimming a d w l c)"
  "read_package (str ''RUN'') [a, d, w] = Inr (Running a d w)"
  "read_package (str ''WLK'') [a, d, w, h] = Inr (SportsWalking a d w h)"
  by (simp_all add: read_package_def training_types_eq str_def)

text \<open>
  C6. \<open>read_package\<close> raises \<open>ValueError\<close> exactly when the code is none of \<open>SWM\<close>,
  \<open>RUN\<close>, \<open>WLK\<close>. For these it calls the constructor of \<open>Swimming\<close>, \<open>Running\<close>,
  \<open>SportsWalking\<close>, which binds the data to the attributes by position.
\<close>

theorem read_package_spec:
  "(read_package workout_type data = Inl ValueError \<longleftrightarrow>
      workout_type \<notin> {str ''SWM'', str ''RUN'', str ''WLK''}) \<and>
   read_package (str ''SWM'') [a, d, w, l, c] = Inr (Swimming a d w l c) \<and>
   read_package (str ''RUN'') [a, d, w] = Inr (Running a d w) \<and>
   read_package (str ''WLK'') [a, d, w, h] = Inr (SportsWalking a d w h)"
proof -
  have "read_package workout_type data = Inl ValueError \<longleftrightarrow>
      workout_type \<notin> {str ''SWM'', str ''RUN'', str ''WLK''}"
    by (auto simp add: read_package_def training_types_eq new_training_not_ValueError)
  then show ?thesis
    by (simp only: read_package_known simp_thms)
qed

theorem read_package_spec_witness:
  "read_package (str ''XYZ'') [PyInt 1, PyInt 2, PyInt 3] = Inl ValueError \<and>
   read_package (str ''RUN'') [PyInt 15000, PyInt 1, PyInt 75] =
     Inr (Running (PyInt 15000) (PyInt 1) (PyInt 75))"
  using read_package_spec [of "str ''XYZ''" "[PyInt 1, PyInt 2, PyInt 3]"
      "PyInt 15000" "PyInt 1" "PyInt 75"]
  by (simp add: str_def)

text \<open>A list of another length is a \<open>TypeError\<close>: four values for \<open>RUN\<close>, say.\<close>

lemma read_package_arity:
  "read_package (str ''RUN'') [a, d, w, h] = Inl TypeError"
  by (simp add: read_package_def training_types_eq str_def)

section \<open>The label of the report\<close>

lemma new_training_class:
  assumes "new_training cls data = Inr t"
  shows "class_name t =
     (case cls of Swimming_class \<Rightarrow> str ''Swimming'' | Running_class \<Rightarrow> str ''Running''
      | SportsWalking_class \<Rightarrow> str ''SportsWalking'')"
  using assms by (induction cls data rule: new_training.induct) auto

lemma read_package_class:
  assumes "read_package workout_type data = Inr t"
  shows "workout_type \<in> {str ''SWM'', str ''RUN'', str ''WLK''} \<and>
         class_name t =
           (if workout_type = str ''SWM'' then str ''Swimming''
            else if workout_type = str ''RUN'' then str ''Running''
            else str ''SportsWalking'')"
proof -
  from assms obtain cls where c: "training_types workout_type = Some cls"
    and n: "new_training cls data = Inr t"
    by (auto simp add: read_package_def split: option.splits)
  from c new_training_class [OF n] show ?thesis
    by (auto simp add: training_types_eq str_def split: if_splits)
qed

lemma show_training_info_label:
  assumes "show_training_info libm_pow t = Inr m"
  shows "training_type m = class_name t"
proof -
  from assms obtain x y z where "m = new_InfoMessage (class_name t) (duration t) x y z"
    unfolding show_training_info_def
    by (cases "get_distance t"; cases "get_mean_speed t"; cases "get_spent_calories libm_pow t")
       auto
  then show ?thesis by (simp add: new_InfoMessage_def)
qed

text \<open>A walk with a duration and a height other than zero has a report.\<close>

lemma show_training_info_SportsWalking:
  assumes "num_val d \<noteq> 0" and "num_val h \<noteq> 0"
  shows "\<exists>m. show_training_info libm_pow (SportsWalking a d w h) = Inr m"
  using assms
  by (simp add: show_training_info_def get_distance_def py_truediv_def M_IN_KM_def SM_IN_MTR_def
      truediv_eq_0_iff)

text \<open>
  C10. The label of the report of a session that \<open>read_package\<close> built is the name
  of its class: \<open>Swimming\<close> for \<open>SWM\<close>, \<open>Running\<close> for \<open>RUN\<close>, \<open>SportsWalking\<close> for
  \<open>WLK\<close>, which are the only codes that build a session.
\<close>

theorem report_label:
  assumes "read_package workout_type data = Inr t"
    and "show_training_info libm_pow t = Inr m"
  shows "training_type m =
           (if workout_type = str ''SWM'' then str ''Swimming''
            else if workout_type = str ''RUN'' then str ''Running''
            else str ''SportsWalking'') \<and>
         workout_type \<in> {str ''SWM'', str ''RUN'', str ''WLK''}"
  using read_package_class [OF assms(1)] show_training_info_label [OF assms(2)] by simp

theorem report_label_witness:
  "read_package (str ''WLK'') [PyInt 9000, PyInt 1, PyInt 75, PyInt 180] =
     Inr (SportsWalking (PyInt 9000) (PyInt 1) (PyInt 75) (PyInt 180)) \<and>
   (\<exists>m. show_training_info pow_nearest
           (SportsWalking (PyInt 9000) (PyInt 1) (PyInt 75) (PyInt 180)) = Inr m \<and>
        training_type m = str ''SportsWalking'')"
proof -
  let ?t = "SportsWalking (PyInt 9000) (PyInt 1) (PyInt 75) (PyInt 180)"
  have rp: "read_package (str ''WLK'') [PyInt 9000, PyInt 1, PyInt 75, PyInt 180] = Inr ?t"
    by (rule read_package_known)
  have "\<exists>m. show_training_info pow_nearest ?t = Inr m"
    by (rule show_training_info_SportsWalking) simp_all
  then obtain m where m: "show_training_info pow_nearest ?t = Inr m" ..
  from report_label [OF rp m] have "training_type m = str ''SportsWalking''"
    by (simp add: str_def)
  with rp m show ?thesis by blast
qed

section \<open>The rendering of the report\<close>





text \<open>The decimals are those of the value rounded to the nearest thousandth.\<close>

lemma format_f_3_rounds:
  "\<bar>of_int (round_half_even (\<bar>to_float x\<bar> * 10 ^ 3)) / 10 ^ 3 - \<bar>to_float x\<bar>\<bar> \<le> 1 / 2000"
proof -
  have "\<bar>of_int (round_half_even (\<bar>to_float x\<bar> * 10 ^ 3)) - \<bar>to_float x\<bar> * 10 ^ 3\<bar> \<le> 1 / 2"
    by (rule round_half_even_err)
  then show ?thesis
    by (simp add: abs_le_iff field_simps)
qed

lemma get_message_default:
  "get_message (new_InfoMessage name dur dst sp cal) =
     Inr (ru_training_type @ str '': '' @ name @ str ''; '' @
          ru_duration @ str '': '' @ format_f 3 dur @ str '' '' @ ru_hours @ str ''; '' @
          ru_distance @ str '': '' @ format_f 3 dst @ str '' '' @ ru_km @ str ''; '' @
          ru_mean_speed @ str '': '' @ format_f 3 sp @ str '' '' @ ru_kmh @ str ''; '' @
          ru_calories @ str '': '' @ format_f 3 cal @ str ''.'')"
  by (simp add: get_message_def new_InfoMessage_def asdict_def format_def Message_default_def
      ru_training_type_def ru_duration_def ru_hours_def ru_distance_def ru_km_def
      ru_mean_speed_def ru_kmh_def ru_calories_def str_def
      format_field_def format_value_def is_fixed_spec_def precision_def nat_of_digits_def
      is_digit_def)


section \<open>The run of the driver\<close>

lemma running_sample_speed:
  "get_distance (Running (PyInt 15000) (PyInt 1) (PyInt 75)) = Inr (PyFloat (39 / 4))"
  "get_mean_speed (Running (PyInt 15000) (PyInt 1) (PyInt 75)) = Inr (PyFloat (39 / 4))"
  by code_simp+

lemma running_sample_calories:
  "get_spent_calories libm_pow (Running (PyInt 15000) (PyInt 1) (PyInt 75)) =
     Inr (PyFloat (7017566993582653 / 8796093022208))"
proof -
  have a: "py_mul (PyInt 18) (PyFloat (39 / 4)) = PyFloat (351 / 2)"
    by code_simp
  have b: "py_add (PyFloat (351 / 2)) (float_lit (179 / 100)) =
      PyFloat (6237837327629025 / 35184372088832)"
    by code_simp
  have c: "py_mul (PyFloat (6237837327629025 / 35184372088832)) (PyInt 75) = PyFloat (53187 / 4)"
    by code_simp
  have d: "truediv (PyFloat (53187 / 4)) (PyInt 1000) =
      PyFloat (3742702396577415 / 281474976710656)"
    by code_simp
  have e: "py_mul (PyFloat (3742702396577415 / 281474976710656)) (PyInt 1) =
      PyFloat (3742702396577415 / 281474976710656)"
    by code_simp
  have g: "py_mul (PyFloat (3742702396577415 / 281474976710656)) (PyInt 60) =
      PyFloat (7017566993582653 / 8796093022208)"
    by code_simp
  show ?thesis
    by (simp add: running_sample_speed py_truediv_def M_IN_KM_def HOURS_IN_MINUTES_def
        CALORIES_MEAN_SPEED_MULTIPLIER_def CALORIES_MEAN_SPEED_SHIFT_def a b c d e g
        del: py_mul.simps py_add.simps truediv.simps get_mean_speed.simps)
qed

lemma format_f_calories_sample:
  "format_f 3 (PyFloat (7017566993582653 / 8796093022208)) = str ''797.805''"
proof -
  have m: "round_half_even (\<bar>7017566993582653 / 8796093022208\<bar> * 10 ^ 3) = 797805"
    by code_simp
  have ip: "decimal 797 = [55, 57, 55]" and fp: "digits 3 805 = [56, 48, 53]"
    by code_simp+
  have "format_f 3 (PyFloat (7017566993582653 / 8796093022208)) =
      decimal (nat 797805 div 10 ^ 3) @ str ''.'' @ digits 3 (nat 797805 mod 10 ^ 3)"
    unfolding format_f_def Let_def to_float.simps m by simp
  also have "\<dots> = str ''797.805''"
    by (simp add: ip fp str_def)
  finally show ?thesis .
qed

lemma format_f_distance_sample: "format_f 3 (PyFloat (39 / 4)) = str ''9.750''"
proof -
  have m: "round_half_even (\<bar>39 / 4\<bar> * 10 ^ 3) = 9750"
    by code_simp
  have ip: "decimal 9 = [57]" and fp: "digits 3 750 = [55, 53, 48]"
    by code_simp+
  have "format_f 3 (PyFloat (39 / 4)) =
      decimal (nat 9750 div 10 ^ 3) @ str ''.'' @ digits 3 (nat 9750 mod 10 ^ 3)"
    unfolding format_f_def Let_def to_float.simps m by simp
  also have "\<dots> = str ''9.750''"
    by (simp add: ip fp str_def)
  finally show ?thesis .
qed

lemma format_f_duration_sample: "format_f 3 (PyInt 1) = str ''1.000''"
proof -
  have t: "to_float (PyInt 1) = 1"
    by code_simp
  have m: "round_half_even (\<bar>1\<bar> * 10 ^ 3) = 1000"
    by code_simp
  have ip: "decimal (Suc 0) = [49]"
    by (simp add: decimal_def floorlog_def)
  have fp: "digits 3 0 = [48, 48, 48]"
    by (simp add: numeral_3_eq_3)
  have "format_f 3 (PyInt 1) =
      decimal (nat 1000 div 10 ^ 3) @ str ''.'' @ digits 3 (nat 1000 mod 10 ^ 3)"
    unfolding format_f_def Let_def t m by simp
  also have "\<dots> = str ''1.000''"
    by (simp add: ip fp str_def)
  finally show ?thesis .
qed

lemma main_running_sample:
  "main libm_pow (Running (PyInt 15000) (PyInt 1) (PyInt 75)) =
     Inr (ru_training_type @ str '': Running; '' @
          ru_duration @ str '': 1.000 '' @ ru_hours @ str ''; '' @
          ru_distance @ str '': 9.750 '' @ ru_km @ str ''; '' @
          ru_mean_speed @ str '': 9.750 '' @ ru_kmh @ str ''; '' @
          ru_calories @ str '': 797.805.'')"
proof -
  have "main libm_pow (Running (PyInt 15000) (PyInt 1) (PyInt 75)) =
      get_message (new_InfoMessage (str ''Running'') (PyInt 1) (PyFloat (39 / 4))
        (PyFloat (39 / 4)) (PyFloat (7017566993582653 / 8796093022208)))"
    by (simp add: main_def show_training_info_def running_sample_speed running_sample_calories
        del: get_mean_speed.simps get_spent_calories.simps)
  then show ?thesis
    by (simp add: get_message_default format_f_calories_sample format_f_distance_sample
        format_f_duration_sample str_def)
qed

text \<open>
  C8, as the code has it. The \<open>RUN\<close> package of the driver, 15000 steps in 1 hour
  at 75 kg: the distance and the mean speed are the float 9.75, the calories are
  a float within \<open>10^-12\<close> of 797.805, and the report prints them as \<open>9.750\<close>,
  \<open>9.750\<close> and \<open>797.805\<close>.
\<close>

theorem running_sample:
  "read_package (str ''RUN'') [PyInt 15000, PyInt 1, PyInt 75] =
     Inr (Running (PyInt 15000) (PyInt 1) (PyInt 75)) \<and>
   get_distance (Running (PyInt 15000) (PyInt 1) (PyInt 75)) = Inr (PyFloat (39 / 4)) \<and>
   get_mean_speed (Running (PyInt 15000) (PyInt 1) (PyInt 75)) = Inr (PyFloat (39 / 4)) \<and>
   get_spent_calories libm_pow (Running (PyInt 15000) (PyInt 1) (PyInt 75)) =
     Inr (PyFloat (7017566993582653 / 8796093022208)) \<and>
   \<bar>7017566993582653 / 8796093022208 - 797805 / 1000\<bar> \<le> (1 / 10 ^ 12 :: rat) \<and>
   format_f 3 (PyFloat (7017566993582653 / 8796093022208)) = str ''797.805'' \<and>
   main libm_pow (Running (PyInt 15000) (PyInt 1) (PyInt 75)) =
     Inr (ru_training_type @ str '': Running; '' @
          ru_duration @ str '': 1.000 '' @ ru_hours @ str ''; '' @
          ru_distance @ str '': 9.750 '' @ ru_km @ str ''; '' @
          ru_mean_speed @ str '': 9.750 '' @ ru_kmh @ str ''; '' @
          ru_calories @ str '': 797.805.'')"
proof -
  have "\<bar>7017566993582653 / 8796093022208 - 797805 / 1000\<bar> \<le> (1 / 10 ^ 12 :: rat)"
    by simp
  then show ?thesis
    by (simp only: read_package_known running_sample_speed running_sample_calories
        format_f_calories_sample main_running_sample simp_thms)
qed

text \<open>
  The claim C8 as the specification states it fails: the calories are not near
  797.0028, and the report does not print \<open>797.003\<close>.
\<close>

theorem running_sample_counterexample:
  "get_spent_calories pow_nearest (Running (PyInt 15000) (PyInt 1) (PyInt 75)) =
     Inr (PyFloat (7017566993582653 / 8796093022208)) \<and>
   \<not> \<bar>7017566993582653 / 8796093022208 - 7970028 / 10000\<bar> \<le> (1 / 2 :: rat) \<and>
   format_f 3 (PyFloat (7017566993582653 / 8796093022208)) \<noteq> str ''797.003''"
proof -
  have "\<not> \<bar>7017566993582653 / 8796093022208 - 7970028 / 10000\<bar> \<le> (1 / 2 :: rat)"
    by simp
  moreover have "str ''797.805'' \<noteq> str ''797.003''"
    by (simp add: str_def)
  ultimately show ?thesis
    by (simp only: running_sample_calories format_f_calories_sample simp_thms)
qed

end
